theory Spec2Isabelle
  imports Main "HOL-Library.Char_ord" "HOL-Library.List_Lexorder" "HOL-Library.FSet"
begin

section \<open>The \<open>who-can\<close> command of \<open>pkg/cmd/admin/policy/who_can.go\<close>\<close>

text \<open>
  The command resolves a user-typed resource token against a REST mapper
  (\<open>resourceFor\<close>), then asks one of two review endpoints who may perform a verb
  on the resolved resource and prints the answer (\<open>whoCanOptions.run\<close>).

  Go strings are byte sequences and are modelled by \<open>string\<close>; a Go \<open>error\<close>
  value that may be \<open>nil\<close> is an \<open>error option\<close>; a pointer that may be \<open>nil\<close>
  is an \<open>option\<close>.
\<close>

subsection \<open>Data\<close>

datatype error = Error string

text \<open>\<open>unversioned.GroupVersionResource\<close> and \<open>unversioned.GroupResource\<close>.\<close>

record GroupVersionResource =
  Group :: string
  Version :: string
  Resource :: string

record GroupResource =
  grGroup :: string
  grResource :: string

text \<open>\<open>authorizationapi.AuthorizationAttributes\<close>, as far as \<open>run\<close> fills it in.\<close>

record AuthorizationAttributes =
  Verb :: string
  attrGroup :: string
  attrResource :: string

text \<open>
  \<open>authorizationapi.ResourceAccessReviewResponse\<close>. \<open>Users\<close> and \<open>Groups\<close> are
  \<open>sets.String\<close>, a Go map used as a finite set of strings.
\<close>

record ResourceAccessReviewResponse =
  Namespace :: string
  Users :: "string fset"
  Groups :: "string fset"

text \<open>
  \<open>meta.RESTMapper\<close>, as far as \<open>resourceFor\<close> uses it: the method \<open>ResourceFor\<close>,
  which returns a reference together with an error.
\<close>

type_synonym RESTMapper = "GroupVersionResource \<Rightarrow> GroupVersionResource \<times> error option"

subsection \<open>Library functions used by \<open>resourceFor\<close>\<close>

text \<open>
  Modelled from the spec: \<open>strings.ToLower\<close> (Go standard library) is not among the
  sources; the spec says "Lowercase the token". The letters \<open>A\<close>..\<open>Z\<close> are moved to
  \<open>a\<close>..\<open>z\<close> (Go: \<open>c += 'a' - 'A'\<close>) and every other byte is kept, which is what Go
  does on every string whose characters outside ASCII have no case mapping.
\<close>

definition isUpper :: "char \<Rightarrow> bool" where
  "isUpper c \<longleftrightarrow> CHR ''A'' \<le> c \<and> c \<le> CHR ''Z''"

definition toLowerByte :: "char \<Rightarrow> char" where
  "toLowerByte c = (if isUpper c then char_of (of_char c + (32::nat)) else c)"

definition ToLower :: "string \<Rightarrow> string" where
  "ToLower s = map toLowerByte s"

text \<open>The part of a string before its first dot, and the part after it.\<close>

definition beforeDot :: "string \<Rightarrow> string" where
  "beforeDot s = takeWhile (\<lambda>c. c \<noteq> CHR ''.'') s"

definition afterDot :: "string \<Rightarrow> string" where
  "afterDot s = drop 1 (dropWhile (\<lambda>c. c \<noteq> CHR ''.'') s)"

text \<open>
  Modelled from the spec: \<open>unversioned.ParseGroupResource\<close> is not among the sources.
  The spec has "a bare group-resource (resource plus optional dotted group suffix, no
  version)" and "a token with no dots is treated as a bare resource with empty group":
  the token is cut at its first dot.
\<close>

definition ParseGroupResource :: "string \<Rightarrow> GroupResource" where
  "ParseGroupResource gr =
     (if CHR ''.'' \<notin> set gr then \<lparr>grGroup = '''', grResource = gr\<rparr>
      else \<lparr>grGroup = afterDot gr, grResource = beforeDot gr\<rparr>)"

text \<open>
  Modelled from the spec: \<open>unversioned.ParseResourceArg\<close> is not among the sources.
  The spec has "a fully-qualified reference of the shape resource.version.group" (as in
  \<open>builds.v1.build.openshift.io\<close>) next to the group-resource reading of the same token:
  with two dots or more the token is cut at its first two dots into resource, version
  and group, otherwise there is no fully-qualified candidate (Go: a \<open>nil\<close> pointer). The
  group-resource reading is returned in both cases.
\<close>

definition ParseResourceArg :: "string \<Rightarrow> GroupVersionResource option \<times> GroupResource" where
  "ParseResourceArg arg =
     (if 2 \<le> count_list arg (CHR ''.'')
      then Some \<lparr>Group = afterDot (afterDot arg), Version = beforeDot (afterDot arg),
                 Resource = beforeDot arg\<rparr>
      else None,
      ParseGroupResource arg)"

text \<open>
  Modelled from the spec: \<open>GroupVersionResource.IsEmpty\<close> is not among the sources; the
  spec has "Empty is a valid sentinel state (all fields blank)".
\<close>

definition IsEmpty :: "GroupVersionResource \<Rightarrow> bool" where
  "IsEmpty gvr \<longleftrightarrow> Group gvr = [] \<and> Version gvr = [] \<and> Resource gvr = []"

text \<open>
  Modelled from the spec: \<open>GroupResource.WithVersion\<close> is not among the sources; the
  spec has "query the mapper with an empty version": the group and the resource are
  kept and the given version is filled in.
\<close>

definition WithVersion :: "GroupResource \<Rightarrow> string \<Rightarrow> GroupVersionResource" where
  "WithVersion gr v = \<lparr>Group = grGroup gr, Version = v, Resource = grResource gr\<rparr>"

subsection \<open>\<open>resourceFor\<close> (lines 75-90)\<close>

text \<open>
  The result is the reference that the Go function returns, paired with the queries
  made to the mapper, in the order in which they are made. The function has no error
  result and no statement that can panic: \<open>fullySpecifiedGVR\<close> is dereferenced under
  its \<open>nil\<close> test only.
\<close>

definition resourceFor :: "RESTMapper \<Rightarrow> string \<Rightarrow> GroupVersionResource \<times> GroupVersionResource list" where
  "resourceFor mapper resourceArg =
     (let (fullySpecifiedGVR, groupResource) = ParseResourceArg (ToLower resourceArg);
          (gvr, asked) =
             (case fullySpecifiedGVR of
                None \<Rightarrow> (\<lparr>Group = '''', Version = '''', Resource = ''''\<rparr>, [])
              | Some full \<Rightarrow> (fst (mapper full), [full]))
      in if IsEmpty gvr
         then (let query = WithVersion groupResource '''';
                   (gvr', err) = mapper query
               in case err of
                    Some e \<Rightarrow> (\<lparr>Group = '''', Version = '''', Resource = resourceArg\<rparr>, asked @ [query])
                  | None \<Rightarrow> (gvr', asked @ [query]))
         else (gvr, asked))"


subsection \<open>The review service\<close>

text \<open>
  \<open>client.Client\<close>, as far as \<open>run\<close> uses it: \<open>ResourceAccessReviews().Create\<close> and
  \<open>LocalResourceAccessReviews(namespace).Create\<close>, each returning a response pointer
  together with an error. The review service is outside the program: its state \<open>'s\<close>
  is passed through each call, so that a call that was made shows in the state it
  leaves behind.
\<close>

record 's Client =
  ResourceAccessReviews_Create ::
    "AuthorizationAttributes \<Rightarrow> 's
       \<Rightarrow> (ResourceAccessReviewResponse option \<times> error option) \<times> 's"
  LocalResourceAccessReviews_Create ::
    "string \<Rightarrow> AuthorizationAttributes \<Rightarrow> 's
       \<Rightarrow> (ResourceAccessReviewResponse option \<times> error option) \<times> 's"

text \<open>The struct \<open>whoCanOptions\<close> (lines 23-30); \<open>client\<close> is set before \<open>run\<close> is called.\<close>

record 's whoCanOptions =
  allNamespaces :: bool
  bindingNamespace :: string
  client :: "'s Client"
  verb :: string
  resource :: GroupVersionResource

subsection \<open>\<open>whoCanOptions.complete\<close> (lines 62-73)\<close>

definition complete :: "RESTMapper \<Rightarrow> string list \<Rightarrow> 's whoCanOptions \<Rightarrow> error + 's whoCanOptions" where
  "complete restMapper args opts =
     (if length args \<noteq> 2
      then Inl (Error ''you must specify two arguments: verb and resource'')
      else Inr (opts\<lparr>verb := args ! 0, resource := fst (resourceFor restMapper (args ! 1))\<rparr>))"

subsection \<open>\<open>whoCanOptions.run\<close> (lines 92-137)\<close>

text \<open>
  Modelled from the spec: \<open>strings.Join\<close> (Go standard library) is not among the
  sources; the spec has "newline-joined": the entries in their order, with the
  separator between each two neighbours.
\<close>

fun Join :: "string list \<Rightarrow> string \<Rightarrow> string" where
  "Join [] sep = []"
| "Join [x] sep = x"
| "Join (x # y # ys) sep = x @ sep @ Join (y # ys) sep"

text \<open>
  Modelled from the spec: \<open>sets.String.List\<close> is not among the sources; the spec has
  "users/groups sets, when rendered, must be presented in a stable sorted order,
  independent of arrival order": the members of the set in ascending order, each once.
  Strings are compared as Go compares them, byte by byte, a proper prefix first.
\<close>

definition List :: "string fset \<Rightarrow> string list" where
  "List s = sorted_list_of_fset s"

text \<open>
  How \<open>run\<close> ends: it returns its error result, or it dereferences the response
  pointer that came back \<open>nil\<close> without an error.
\<close>

datatype Outcome = Returned "error option" | NilDereference

text \<open>
  What \<open>run\<close> leaves behind: how it ended, what it printed, and the state of the
  review service.
\<close>

record 's Run =
  outcome :: Outcome
  stdout :: string
  server :: 's

text \<open>Lines 111-115. \<open>kapi.NamespaceAll\<close> is declared outside the sources and is a parameter.\<close>

definition printNamespace :: "string \<Rightarrow> ResourceAccessReviewResponse \<Rightarrow> string" where
  "printNamespace NamespaceAll response =
     (if Namespace response = NamespaceAll then ''Namespace: <all>\<newline>''
      else ''Namespace: '' @ Namespace response @ ''\<newline>'')"

text \<open>Lines 117-120.\<close>

definition resourceDisplay :: "GroupVersionResource \<Rightarrow> string" where
  "resourceDisplay r =
     (if 0 < length (Group r) then Resource r @ ''.'' @ Group r else Resource r)"

text \<open>Lines 124-128 and 130-134.\<close>

definition printUsers :: "ResourceAccessReviewResponse \<Rightarrow> string" where
  "printUsers response =
     (if fcard (Users response) = 0 then ''Users:  none\<newline>\<newline>''
      else ''Users:  '' @ Join (List (Users response)) ''\<newline>        '' @ ''\<newline>\<newline>'')"

definition printGroups :: "ResourceAccessReviewResponse \<Rightarrow> string" where
  "printGroups response =
     (if fcard (Groups response) = 0 then ''Groups: none\<newline>\<newline>''
      else ''Groups: '' @ Join (List (Groups response)) ''\<newline>        '' @ ''\<newline>\<newline>'')"

text \<open>
  \<open>run\<close>, started with the review service in state \<open>s\<close>. Lines 101-105 make the one call,
  lines 107-109 return its error before anything is printed, lines 111-134 print.
\<close>

definition run :: "string \<Rightarrow> 's whoCanOptions \<Rightarrow> 's \<Rightarrow> 's Run" where
  "run NamespaceAll opts s =
     (let authorizationAttributes =
            \<lparr>Verb = verb opts, attrGroup = Group (resource opts),
             attrResource = Resource (resource opts)\<rparr>;
          ((resourceAccessReviewResponse, err), s') =
            (if allNamespaces opts
             then ResourceAccessReviews_Create (client opts) authorizationAttributes s
             else LocalResourceAccessReviews_Create (client opts) (bindingNamespace opts)
                    authorizationAttributes s)
      in case err of
           Some e \<Rightarrow> \<lparr>outcome = Returned (Some e), stdout = [], server = s'\<rparr>
         | None \<Rightarrow>
            (case resourceAccessReviewResponse of
               None \<Rightarrow> \<lparr>outcome = NilDereference, stdout = [], server = s'\<rparr>
             | Some response \<Rightarrow>
                 \<lparr>outcome = Returned None,
                  stdout = printNamespace NamespaceAll response
                    @ ''Verb:      '' @ verb opts @ ''\<newline>''
                    @ ''Resource:  '' @ resourceDisplay (resource opts) @ ''\<newline>\<newline>''
                    @ printUsers response
                    @ printGroups response,
                  server = s'\<rparr>))"

text \<open>
  The call that \<open>run\<close> makes at lines 101-105, as a function of the options and the
  state of the service.
\<close>

definition selectedReview ::
  "'s whoCanOptions \<Rightarrow> 's \<Rightarrow> (ResourceAccessReviewResponse option \<times> error option) \<times> 's" where
  "selectedReview opts s =
     (if allNamespaces opts
      then ResourceAccessReviews_Create (client opts)
             \<lparr>Verb = verb opts, attrGroup = Group (resource opts),
              attrResource = Resource (resource opts)\<rparr> s
      else LocalResourceAccessReviews_Create (client opts) (bindingNamespace opts)
             \<lparr>Verb = verb opts, attrGroup = Group (resource opts),
              attrResource = Resource (resource opts)\<rparr> s)"

subsection \<open>Mappers, clients and options used as concrete inputs\<close>

text \<open>A mapper that knows no resource: every query gets the empty reference and an error.\<close>

definition refusing :: RESTMapper where
  "refusing q = (\<lparr>Group = '''', Version = '''', Resource = ''''\<rparr>, Some (Error ''no match''))"

text \<open>A mapper that answers every query with the reference it was asked for.\<close>

definition exact :: RESTMapper where
  "exact q = (q, None)"

text \<open>A mapper that answers every query with version \<open>v2\<close> of what it was asked for.\<close>

definition relabelling :: RESTMapper where
  "relabelling q = (q\<lparr>Version := ''v2''\<rparr>, None)"


text \<open>
  The fake reviewer of the specification's scope-selection test. Its state is the list
  of the calls it has received: each operation appends the call it is and gives a
  fixed answer.
\<close>

datatype ReviewCall =
  ClusterReview AuthorizationAttributes
| LocalReview string AuthorizationAttributes

definition fakeReviewer ::
  "ResourceAccessReviewResponse option \<times> error option
     \<Rightarrow> ResourceAccessReviewResponse option \<times> error option
     \<Rightarrow> (ReviewCall list) Client" where
  "fakeReviewer clusterAnswer localAnswer =
     \<lparr>ResourceAccessReviews_Create = (\<lambda>a received. (clusterAnswer, received @ [ClusterReview a])),
      LocalResourceAccessReviews_Create =
        (\<lambda>ns a received. (localAnswer, received @ [LocalReview ns a]))\<rparr>"

definition aliceOnly :: ResourceAccessReviewResponse where
  "aliceOnly = \<lparr>Namespace = ''default'', Users = {|''alice''|}, Groups = {||}\<rparr>"

definition adminsOnly :: ResourceAccessReviewResponse where
  "adminsOnly = \<lparr>Namespace = '''', Users = {||}, Groups = {|''system:admins''|}\<rparr>"

definition answering :: "(ReviewCall list) Client" where
  "answering = fakeReviewer (Some adminsOnly, None) (Some aliceOnly, None)"

definition failing :: "(ReviewCall list) Client" where
  "failing = fakeReviewer (None, Some (Error ''forbidden'')) (None, Some (Error ''timeout''))"

definition getPods :: "bool \<Rightarrow> 's Client \<Rightarrow> 's whoCanOptions" where
  "getPods everywhere c =
     \<lparr>allNamespaces = everywhere, bindingNamespace = ''default'', client = c, verb = ''get'',
      resource = \<lparr>Group = '''', Version = ''v1'', Resource = ''pods''\<rparr>\<rparr>"

text \<open>
  The report layout in the words of the specification's output rule read strictly: five
  sections, and a blank line after the Users and the Groups section only.
\<close>

definition reportAsClaimed :: "string \<Rightarrow> string \<Rightarrow> string \<Rightarrow> string \<Rightarrow> string \<Rightarrow> string" where
  "reportAsClaimed ns v r us gs =
     ''Namespace: '' @ ns @ ''\<newline>''
     @ ''Verb:      '' @ v @ ''\<newline>''
     @ ''Resource:  '' @ r @ ''\<newline>''
     @ ''Users:  '' @ us @ ''\<newline>\<newline>''
     @ ''Groups: '' @ gs @ ''\<newline>\<newline>''"

section \<open>Properties\<close>

subsection \<open>Lower-casing and parsing\<close>

lemma isUpper_bounds: "isUpper c \<longleftrightarrow> 65 \<le> (of_char c :: nat) \<and> (of_char c :: nat) \<le> 90"
  by (simp add: isUpper_def less_eq_char_def)

lemma toLowerByte_upper: "isUpper c \<Longrightarrow> (of_char (toLowerByte c) :: nat) = of_char c + 32"
  by (simp add: toLowerByte_def isUpper_bounds)

lemma toLowerByte_changes: "isUpper c \<Longrightarrow> toLowerByte c \<noteq> c"
  using toLowerByte_upper [of c] by auto

lemma toLowerByte_dot: "toLowerByte c = CHR ''.'' \<longleftrightarrow> c = CHR ''.''"
proof (cases "isUpper c")
  case True
  then have "(of_char (toLowerByte c) :: nat) = of_char c + 32" by (rule toLowerByte_upper)
  moreover have "65 \<le> (of_char c :: nat)" using True by (simp add: isUpper_bounds)
  ultimately have "toLowerByte c \<noteq> CHR ''.''" by auto
  moreover have "c \<noteq> CHR ''.''" using True by (auto simp add: isUpper_bounds)
  ultimately show ?thesis by simp
next
  case False
  then show ?thesis by (simp add: toLowerByte_def)
qed

lemma ToLower_dot: "CHR ''.'' \<in> set (ToLower s) \<longleftrightarrow> CHR ''.'' \<in> set s"
proof (induction s)
  case Nil
  show ?case by (simp add: ToLower_def)
next
  case (Cons a s)
  have "CHR ''.'' = toLowerByte a \<longleftrightarrow> CHR ''.'' = a"
    using toLowerByte_dot [of a] by auto
  with Cons show ?case by (simp add: ToLower_def)
qed

lemma ToLower_changes: "\<exists>c\<in>set s. isUpper c \<Longrightarrow> ToLower s \<noteq> s"
proof (induction s)
  case Nil
  then show ?case by simp
next
  case (Cons a s)
  then show ?case by (auto simp add: ToLower_def toLowerByte_changes)
qed

lemma ParseResourceArg_no_dot:
  "CHR ''.'' \<notin> set s \<Longrightarrow> ParseResourceArg s = (None, \<lparr>grGroup = '''', grResource = s\<rparr>)"
  by (simp add: ParseResourceArg_def ParseGroupResource_def)

lemma parse_builds:
  "ParseResourceArg (ToLower ''Builds.v1.build.openshift.io'')
     = (Some \<lparr>Group = ''build.openshift.io'', Version = ''v1'', Resource = ''builds''\<rparr>,
        \<lparr>grGroup = ''v1.build.openshift.io'', grResource = ''builds''\<rparr>)"
  by code_simp

lemma lower_Pods: "ToLower ''Pods'' = ''pods''"
  by code_simp

subsection \<open>Resolution\<close>

text \<open>
  Claim C1. Resolution is total: \<open>resourceFor\<close> has no error result, and whenever both
  lookups fail it returns the degenerate reference whose resource is the token as typed
  and whose group and version are empty. The fully-qualified lookup fails when it is not
  made or yields the empty reference (the test at line 81); the group-resource lookup
  fails when the mapper returns an error (line 84). At most two queries reach the mapper.
\<close>

theorem resourceFor_degenerate:
  assumes "\<forall>full. fst (ParseResourceArg (ToLower resourceArg)) = Some full
             \<longrightarrow> IsEmpty (fst (mapper full))"
    and "snd (mapper (WithVersion (snd (ParseResourceArg (ToLower resourceArg))) '''')) \<noteq> None"
  shows "fst (resourceFor mapper resourceArg)
           = \<lparr>Group = '''', Version = '''', Resource = resourceArg\<rparr>
         \<and> length (snd (resourceFor mapper resourceArg)) \<le> 2"
  using assms
  by (auto simp add: resourceFor_def IsEmpty_def Let_def split: prod.splits option.splits)

text \<open>The mapper that knows nothing, asked for a three-part token.\<close>

theorem resourceFor_degenerate_witness:
  "fst (resourceFor refusing ''Builds.v1.Build.openshift.io'')
     = \<lparr>Group = '''', Version = '''', Resource = ''Builds.v1.Build.openshift.io''\<rparr>
   \<and> length (snd (resourceFor refusing ''Builds.v1.Build.openshift.io'')) \<le> 2"
  using resourceFor_degenerate [of "''Builds.v1.Build.openshift.io''" refusing]
  by (simp add: refusing_def IsEmpty_def)

text \<open>
  Claim C2, as amended. When the token parses as a fully-qualified reference and the
  mapper returns a non-empty reference for it, \<open>resourceFor\<close> returns that reference and
  the fully-qualified query is the only one made: there is no group-resource lookup. The
  version of the result is the version in the mapper's answer; it is the requested
  version exactly when the mapper answered with the version it was asked for.
\<close>

theorem resourceFor_fully_qualified:
  assumes "fst (ParseResourceArg (ToLower resourceArg)) = Some full"
    and "\<not> IsEmpty (fst (mapper full))"
  shows "resourceFor mapper resourceArg = (fst (mapper full), [full])
         \<and> (Version (fst (resourceFor mapper resourceArg)) = Version full
              \<longleftrightarrow> Version (fst (mapper full)) = Version full)"
  using assms
  by (auto simp add: resourceFor_def Let_def split: prod.splits option.splits)

text \<open>A mapper that answers with what it was asked: the requested version \<open>v1\<close> is kept.\<close>

theorem resourceFor_fully_qualified_witness:
  "resourceFor exact ''Builds.v1.build.openshift.io''
     = (\<lparr>Group = ''build.openshift.io'', Version = ''v1'', Resource = ''builds''\<rparr>,
        [\<lparr>Group = ''build.openshift.io'', Version = ''v1'', Resource = ''builds''\<rparr>])"
  using resourceFor_fully_qualified [of "''Builds.v1.build.openshift.io''"
      "\<lparr>Group = ''build.openshift.io'', Version = ''v1'', Resource = ''builds''\<rparr>" exact]
  by (simp add: parse_builds exact_def IsEmpty_def)

text \<open>
  Claim C2 as stated fails: the token \<open>builds.v1.build.openshift.io\<close> parses as a
  fully-qualified reference with version \<open>v1\<close>, the mapper \<open>relabelling\<close> returns a
  non-empty reference for it, and the resolved version is not \<open>v1\<close>.
\<close>

theorem resourceFor_version_counterexample:
  "fst (ParseResourceArg (ToLower ''builds.v1.build.openshift.io''))
     = Some \<lparr>Group = ''build.openshift.io'', Version = ''v1'', Resource = ''builds''\<rparr>
   \<and> \<not> IsEmpty (fst (relabelling
          \<lparr>Group = ''build.openshift.io'', Version = ''v1'', Resource = ''builds''\<rparr>))
   \<and> Version (fst (resourceFor relabelling ''builds.v1.build.openshift.io'')) \<noteq> ''v1''"
  by code_simp

text \<open>
  Claim C6. A token without a dot is never tried as a fully-qualified reference: the
  only query to the mapper is the group-resource one, with empty group, empty version
  and the lower-cased token as resource. If the mapper returns an error for it, the
  result has empty group (and version) and the token as typed as resource; otherwise
  the result is the mapper's answer.
\<close>

theorem resourceFor_bare:
  assumes "CHR ''.'' \<notin> set resourceArg"
  shows "snd (resourceFor mapper resourceArg)
           = [\<lparr>Group = '''', Version = '''', Resource = ToLower resourceArg\<rparr>]
         \<and> fst (resourceFor mapper resourceArg)
           = (case mapper \<lparr>Group = '''', Version = '''', Resource = ToLower resourceArg\<rparr> of
                (gvr, None) \<Rightarrow> gvr
              | (gvr, Some e) \<Rightarrow> \<lparr>Group = '''', Version = '''', Resource = resourceArg\<rparr>)"
proof -
  from assms have "CHR ''.'' \<notin> set (ToLower resourceArg)"
    by (simp add: ToLower_dot)
  then have "ParseResourceArg (ToLower resourceArg)
               = (None, \<lparr>grGroup = '''', grResource = ToLower resourceArg\<rparr>)"
    by (rule ParseResourceArg_no_dot)
  then show ?thesis
    by (simp add: resourceFor_def Let_def IsEmpty_def WithVersion_def
        split: prod.splits option.splits)
qed

text \<open>The token \<open>Pods\<close> and the mapper that knows nothing.\<close>

theorem resourceFor_bare_witness:
  "CHR ''.'' \<notin> set ''Pods''
   \<and> resourceFor refusing ''Pods''
       = (\<lparr>Group = '''', Version = '''', Resource = ''Pods''\<rparr>,
          [\<lparr>Group = '''', Version = '''', Resource = ''pods''\<rparr>])"
proof -
  have h: "CHR ''.'' \<notin> set ''Pods''" by simp
  show ?thesis
    using h resourceFor_bare [OF h, of refusing]
    by (simp add: lower_Pods refusing_def prod_eq_iff)
qed

text \<open>
  Claim C9. The lower-cased token is used for parsing and for the mapper queries only.
  When both lookups fail, the resource of the result is the argument as typed, the
  queries made are the ones parsed from the lower-cased token, and if the token has a
  letter \<open>A\<close>..\<open>Z\<close> the resource of the result differs from the lower-cased token.
\<close>

theorem resourceFor_keeps_casing:
  assumes "\<forall>full. fst (ParseResourceArg (ToLower resourceArg)) = Some full
             \<longrightarrow> IsEmpty (fst (mapper full))"
    and "snd (mapper (WithVersion (snd (ParseResourceArg (ToLower resourceArg))) '''')) \<noteq> None"
  shows "Resource (fst (resourceFor mapper resourceArg)) = resourceArg
         \<and> snd (resourceFor mapper resourceArg)
             = (case fst (ParseResourceArg (ToLower resourceArg)) of
                  None \<Rightarrow> [] | Some full \<Rightarrow> [full])
               @ [WithVersion (snd (ParseResourceArg (ToLower resourceArg))) '''']
         \<and> ((\<exists>c\<in>set resourceArg. isUpper c)
              \<longrightarrow> Resource (fst (resourceFor mapper resourceArg)) \<noteq> ToLower resourceArg)"
proof -
  have r: "Resource (fst (resourceFor mapper resourceArg)) = resourceArg"
    using assms
    by (auto simp add: resourceFor_def IsEmpty_def Let_def split: prod.splits option.splits)
  have q: "snd (resourceFor mapper resourceArg)
             = (case fst (ParseResourceArg (ToLower resourceArg)) of
                  None \<Rightarrow> [] | Some full \<Rightarrow> [full])
               @ [WithVersion (snd (ParseResourceArg (ToLower resourceArg))) '''']"
    using assms
    by (auto simp add: resourceFor_def IsEmpty_def Let_def split: prod.splits option.splits)
  have c: "(\<exists>c\<in>set resourceArg. isUpper c) \<longrightarrow> resourceArg \<noteq> ToLower resourceArg"
    using ToLower_changes [of resourceArg] by fastforce
  from r q c show ?thesis by simp
qed

text \<open>The token \<open>Pods.V1.Core\<close> and the mapper that knows nothing.\<close>

theorem resourceFor_keeps_casing_witness:
  "(\<exists>c\<in>set ''Pods.V1.Core''. isUpper c)
   \<and> Resource (fst (resourceFor refusing ''Pods.V1.Core'')) = ''Pods.V1.Core''
   \<and> snd (resourceFor refusing ''Pods.V1.Core'')
       = [\<lparr>Group = ''core'', Version = ''v1'', Resource = ''pods''\<rparr>,
          \<lparr>Group = ''v1.core'', Version = '''', Resource = ''pods''\<rparr>]
   \<and> Resource (fst (resourceFor refusing ''Pods.V1.Core'')) \<noteq> ToLower ''Pods.V1.Core''"
proof -
  have p: "ParseResourceArg ''pods.v1.core''
             = (Some \<lparr>Group = ''core'', Version = ''v1'', Resource = ''pods''\<rparr>,
                \<lparr>grGroup = ''v1.core'', grResource = ''pods''\<rparr>)"
    by code_simp
  have l: "ToLower ''Pods.V1.Core'' = ''pods.v1.core''"
    by code_simp
  have u: "\<exists>c\<in>set ''Pods.V1.Core''. isUpper c"
    by (simp add: isUpper_def)
  show ?thesis
    using u resourceFor_keeps_casing [of "''Pods.V1.Core''" refusing]
    by (simp add: p l refusing_def IsEmpty_def WithVersion_def)
qed



subsection \<open>Dispatch\<close>

lemma run_cases:
  assumes "selectedReview opts s = ((resp, err), s')"
  shows "run NamespaceAll opts s
     = (case err of
          Some e \<Rightarrow> \<lparr>outcome = Returned (Some e), stdout = [], server = s'\<rparr>
        | None \<Rightarrow>
           (case resp of
              None \<Rightarrow> \<lparr>outcome = NilDereference, stdout = [], server = s'\<rparr>
            | Some response \<Rightarrow>
                \<lparr>outcome = Returned None,
                 stdout = printNamespace NamespaceAll response
                   @ ''Verb:      '' @ verb opts @ ''\<newline>''
                   @ ''Resource:  '' @ resourceDisplay (resource opts) @ ''\<newline>\<newline>''
                   @ printUsers response
                   @ printGroups response,
                 server = s'\<rparr>))"
proof (cases "allNamespaces opts")
  case True
  with assms show ?thesis by (simp add: run_def selectedReview_def)
next
  case False
  with assms show ?thesis by (simp add: run_def selectedReview_def)
qed

lemma run_outcome:
  "outcome (run NamespaceAll opts s)
     = (case fst (selectedReview opts s) of
          (r, Some e) \<Rightarrow> Returned (Some e)
        | (None, None) \<Rightarrow> NilDereference
        | (Some response, None) \<Rightarrow> Returned None)"
proof -
  obtain resp err s' where r: "selectedReview opts s = ((resp, err), s')"
    by (metis surj_pair)
  show ?thesis
    by (simp add: run_cases [OF r] r split: option.splits)
qed

lemma run_server: "server (run NamespaceAll opts s) = snd (selectedReview opts s)"
proof -
  obtain resp err s' where r: "selectedReview opts s = ((resp, err), s')"
    by (metis surj_pair)
  show ?thesis
    by (simp add: run_cases [OF r] r split: option.splits)
qed

lemma run_stdout:
  assumes "fst (selectedReview opts s) = (Some response, None)"
  shows "stdout (run NamespaceAll opts s)
     = printNamespace NamespaceAll response
       @ ''Verb:      '' @ verb opts @ ''\<newline>''
       @ ''Resource:  '' @ resourceDisplay (resource opts) @ ''\<newline>\<newline>''
       @ printUsers response @ printGroups response"
proof -
  from assms obtain s' where r: "selectedReview opts s = ((Some response, None), s')"
    by (metis prod.collapse)
  show ?thesis
    by (simp add: run_cases [OF r])
qed

lemma run_error:
  assumes "fst (selectedReview opts s) = (response, Some e)"
  shows "outcome (run NamespaceAll opts s) = Returned (Some e)
         \<and> stdout (run NamespaceAll opts s) = []"
proof -
  from assms obtain s' where r: "selectedReview opts s = ((response, Some e), s')"
    by (metis prod.collapse)
  show ?thesis
    by (simp add: run_cases [OF r])
qed

lemma run_other_local:
  assumes "allNamespaces opts"
  shows "run NamespaceAll
           (opts\<lparr>client := (client opts)\<lparr>LocalResourceAccessReviews_Create := other\<rparr>\<rparr>) s
         = run NamespaceAll opts s"
proof -
  obtain resp err s' where r: "selectedReview opts s = ((resp, err), s')"
    by (metis surj_pair)
  with assms have r': "selectedReview
      (opts\<lparr>client := (client opts)\<lparr>LocalResourceAccessReviews_Create := other\<rparr>\<rparr>) s
        = ((resp, err), s')"
    by (simp add: selectedReview_def)
  show ?thesis
    by (simp add: run_cases [OF r] run_cases [OF r'] split: option.splits)
qed

lemma run_other_cluster:
  assumes "\<not> allNamespaces opts"
  shows "run NamespaceAll
           (opts\<lparr>client := (client opts)\<lparr>ResourceAccessReviews_Create := other\<rparr>\<rparr>) s
         = run NamespaceAll opts s"
proof -
  obtain resp err s' where r: "selectedReview opts s = ((resp, err), s')"
    by (metis surj_pair)
  with assms have r': "selectedReview
      (opts\<lparr>client := (client opts)\<lparr>ResourceAccessReviews_Create := other\<rparr>\<rparr>) s
        = ((resp, err), s')"
    by (simp add: selectedReview_def)
  show ?thesis
    by (simp add: run_cases [OF r] run_cases [OF r'] split: option.splits)
qed

lemma run_fake_server:
  "server (run NamespaceAll
       \<lparr>allNamespaces = everywhere, bindingNamespace = ns,
        client = fakeReviewer clusterAnswer localAnswer, verb = v, resource = r\<rparr> received)
     = received @ [if everywhere
                   then ClusterReview \<lparr>Verb = v, attrGroup = Group r, attrResource = Resource r\<rparr>
                   else LocalReview ns \<lparr>Verb = v, attrGroup = Group r, attrResource = Resource r\<rparr>]"
  by (simp add: run_server selectedReview_def fakeReviewer_def)

lemma prefix_take: "xs = p @ r \<Longrightarrow> take (length p) xs = p"
  by simp

text \<open>
  Claim C3. Every invocation of \<open>run\<close> makes exactly one review call. If \<open>allNamespaces\<close>
  is set, the state of the service and the outcome of \<open>run\<close> are those of the
  cluster-scoped \<open>Create\<close> applied once to the attributes built from the verb and the
  group and resource of the resolved reference, and the namespace-scoped operation has
  no part in the run: any other operation in its place gives the same run. If the flag
  is not set, the same holds of the namespace-scoped \<open>Create\<close>, called with
  \<open>bindingNamespace\<close> and the same attributes, and the cluster-scoped operation has no
  part. The fake reviewer, which records the calls it receives, has received exactly
  one more call after \<open>run\<close>: the cluster-scoped one if the flag is set, the
  namespace-scoped one otherwise.
\<close>

theorem run_one_review:
  "(allNamespaces opts \<longrightarrow>
      server (run NamespaceAll opts s)
        = snd (ResourceAccessReviews_Create (client opts)
                 \<lparr>Verb = verb opts, attrGroup = Group (resource opts),
                  attrResource = Resource (resource opts)\<rparr> s)
      \<and> outcome (run NamespaceAll opts s)
        = (case fst (ResourceAccessReviews_Create (client opts)
                       \<lparr>Verb = verb opts, attrGroup = Group (resource opts),
                        attrResource = Resource (resource opts)\<rparr> s) of
             (r, Some e) \<Rightarrow> Returned (Some e)
           | (None, None) \<Rightarrow> NilDereference
           | (Some response, None) \<Rightarrow> Returned None)
      \<and> run NamespaceAll
            (opts\<lparr>client := (client opts)\<lparr>LocalResourceAccessReviews_Create := otherLocal\<rparr>\<rparr>) s
        = run NamespaceAll opts s)
   \<and> (\<not> allNamespaces opts \<longrightarrow>
      server (run NamespaceAll opts s)
        = snd (LocalResourceAccessReviews_Create (client opts) (bindingNamespace opts)
                 \<lparr>Verb = verb opts, attrGroup = Group (resource opts),
                  attrResource = Resource (resource opts)\<rparr> s)
      \<and> outcome (run NamespaceAll opts s)
        = (case fst (LocalResourceAccessReviews_Create (client opts) (bindingNamespace opts)
                       \<lparr>Verb = verb opts, attrGroup = Group (resource opts),
                        attrResource = Resource (resource opts)\<rparr> s) of
             (r, Some e) \<Rightarrow> Returned (Some e)
           | (None, None) \<Rightarrow> NilDereference
           | (Some response, None) \<Rightarrow> Returned None)
      \<and> run NamespaceAll
            (opts\<lparr>client := (client opts)\<lparr>ResourceAccessReviews_Create := otherCluster\<rparr>\<rparr>) s
        = run NamespaceAll opts s)
   \<and> server (run NamespaceAll
         \<lparr>allNamespaces = everywhere, bindingNamespace = ns,
          client = fakeReviewer clusterAnswer localAnswer, verb = v, resource = r\<rparr> received)
       = received @ [if everywhere
                     then ClusterReview \<lparr>Verb = v, attrGroup = Group r, attrResource = Resource r\<rparr>
                     else LocalReview ns \<lparr>Verb = v, attrGroup = Group r, attrResource = Resource r\<rparr>]"
proof -
  have c: "allNamespaces opts \<Longrightarrow> selectedReview opts s
             = ResourceAccessReviews_Create (client opts)
                 \<lparr>Verb = verb opts, attrGroup = Group (resource opts),
                  attrResource = Resource (resource opts)\<rparr> s"
    by (simp add: selectedReview_def)
  have l: "\<not> allNamespaces opts \<Longrightarrow> selectedReview opts s
             = LocalResourceAccessReviews_Create (client opts) (bindingNamespace opts)
                 \<lparr>Verb = verb opts, attrGroup = Group (resource opts),
                  attrResource = Resource (resource opts)\<rparr> s"
    by (simp add: selectedReview_def)
  have 1: "server (run NamespaceAll opts s) = snd (selectedReview opts s)"
    by (rule run_server)
  have 2: "outcome (run NamespaceAll opts s)
     = (case fst (selectedReview opts s) of
          (r, Some e) \<Rightarrow> Returned (Some e)
        | (None, None) \<Rightarrow> NilDereference
        | (Some response, None) \<Rightarrow> Returned None)"
    by (rule run_outcome)
  have cluster: "allNamespaces opts \<longrightarrow>
      server (run NamespaceAll opts s)
        = snd (ResourceAccessReviews_Create (client opts)
                 \<lparr>Verb = verb opts, attrGroup = Group (resource opts),
                  attrResource = Resource (resource opts)\<rparr> s)
      \<and> outcome (run NamespaceAll opts s)
        = (case fst (ResourceAccessReviews_Create (client opts)
                       \<lparr>Verb = verb opts, attrGroup = Group (resource opts),
                        attrResource = Resource (resource opts)\<rparr> s) of
             (r, Some e) \<Rightarrow> Returned (Some e)
           | (None, None) \<Rightarrow> NilDereference
           | (Some response, None) \<Rightarrow> Returned None)
      \<and> run NamespaceAll
            (opts\<lparr>client := (client opts)\<lparr>LocalResourceAccessReviews_Create := otherLocal\<rparr>\<rparr>) s
        = run NamespaceAll opts s"
  proof
    assume a: "allNamespaces opts"
    from 1 2 show "server (run NamespaceAll opts s)
        = snd (ResourceAccessReviews_Create (client opts)
                 \<lparr>Verb = verb opts, attrGroup = Group (resource opts),
                  attrResource = Resource (resource opts)\<rparr> s)
      \<and> outcome (run NamespaceAll opts s)
        = (case fst (ResourceAccessReviews_Create (client opts)
                       \<lparr>Verb = verb opts, attrGroup = Group (resource opts),
                        attrResource = Resource (resource opts)\<rparr> s) of
             (r, Some e) \<Rightarrow> Returned (Some e)
           | (None, None) \<Rightarrow> NilDereference
           | (Some response, None) \<Rightarrow> Returned None)
      \<and> run NamespaceAll
            (opts\<lparr>client := (client opts)\<lparr>LocalResourceAccessReviews_Create := otherLocal\<rparr>\<rparr>) s
        = run NamespaceAll opts s"
      unfolding c [OF a] using run_other_local [OF a, of NamespaceAll otherLocal s] by simp
  qed
  have local: "\<not> allNamespaces opts \<longrightarrow>
      server (run NamespaceAll opts s)
        = snd (LocalResourceAccessReviews_Create (client opts) (bindingNamespace opts)
                 \<lparr>Verb = verb opts, attrGroup = Group (resource opts),
                  attrResource = Resource (resource opts)\<rparr> s)
      \<and> outcome (run NamespaceAll opts s)
        = (case fst (LocalResourceAccessReviews_Create (client opts) (bindingNamespace opts)
                       \<lparr>Verb = verb opts, attrGroup = Group (resource opts),
                        attrResource = Resource (resource opts)\<rparr> s) of
             (r, Some e) \<Rightarrow> Returned (Some e)
           | (None, None) \<Rightarrow> NilDereference
           | (Some response, None) \<Rightarrow> Returned None)
      \<and> run NamespaceAll
            (opts\<lparr>client := (client opts)\<lparr>ResourceAccessReviews_Create := otherCluster\<rparr>\<rparr>) s
        = run NamespaceAll opts s"
  proof
    assume a: "\<not> allNamespaces opts"
    from 1 2 show "server (run NamespaceAll opts s)
        = snd (LocalResourceAccessReviews_Create (client opts) (bindingNamespace opts)
                 \<lparr>Verb = verb opts, attrGroup = Group (resource opts),
                  attrResource = Resource (resource opts)\<rparr> s)
      \<and> outcome (run NamespaceAll opts s)
        = (case fst (LocalResourceAccessReviews_Create (client opts) (bindingNamespace opts)
                       \<lparr>Verb = verb opts, attrGroup = Group (resource opts),
                        attrResource = Resource (resource opts)\<rparr> s) of
             (r, Some e) \<Rightarrow> Returned (Some e)
           | (None, None) \<Rightarrow> NilDereference
           | (Some response, None) \<Rightarrow> Returned None)
      \<and> run NamespaceAll
            (opts\<lparr>client := (client opts)\<lparr>ResourceAccessReviews_Create := otherCluster\<rparr>\<rparr>) s
        = run NamespaceAll opts s"
      unfolding l [OF a] using run_other_cluster [OF a, of NamespaceAll otherCluster s] by simp
  qed
  from cluster local
    run_fake_server [of NamespaceAll everywhere ns clusterAnswer localAnswer v r received]
  show ?thesis by (intro conjI)
qed

text \<open>
  The fake reviewer, not yet called, with the flag set and with the flag not set: one
  call each, of the right kind, and the answer of that call decides the outcome.
\<close>

theorem run_one_review_witness:
  "server (run '''' (getPods True answering) [])
     = [ClusterReview \<lparr>Verb = ''get'', attrGroup = '''', attrResource = ''pods''\<rparr>]
   \<and> outcome (run '''' (getPods True answering) []) = Returned None
   \<and> server (run '''' (getPods False failing) [])
     = [LocalReview ''default'' \<lparr>Verb = ''get'', attrGroup = '''', attrResource = ''pods''\<rparr>]
   \<and> outcome (run '''' (getPods False failing) []) = Returned (Some (Error ''timeout''))"
  using run_one_review [of "getPods True answering" "''''" "[]"]
    run_one_review [of "getPods False failing" "''''" "[]"]
  by (simp add: getPods_def answering_def failing_def fakeReviewer_def)

text \<open>
  Claim C4. If the selected review returns an error, \<open>run\<close> returns that very error,
  nothing has been printed, and the service is in the state that this one call left:
  there is no second call.
\<close>

theorem run_review_error:
  assumes "fst (if allNamespaces opts
                then ResourceAccessReviews_Create (client opts)
                       \<lparr>Verb = verb opts, attrGroup = Group (resource opts),
                        attrResource = Resource (resource opts)\<rparr> s
                else LocalResourceAccessReviews_Create (client opts) (bindingNamespace opts)
                       \<lparr>Verb = verb opts, attrGroup = Group (resource opts),
                        attrResource = Resource (resource opts)\<rparr> s) = (response, Some e)"
  shows "outcome (run NamespaceAll opts s) = Returned (Some e)
         \<and> stdout (run NamespaceAll opts s) = []
         \<and> server (run NamespaceAll opts s)
             = snd (if allNamespaces opts
                    then ResourceAccessReviews_Create (client opts)
                           \<lparr>Verb = verb opts, attrGroup = Group (resource opts),
                            attrResource = Resource (resource opts)\<rparr> s
                    else LocalResourceAccessReviews_Create (client opts) (bindingNamespace opts)
                           \<lparr>Verb = verb opts, attrGroup = Group (resource opts),
                            attrResource = Resource (resource opts)\<rparr> s)"
proof -
  from assms have "fst (selectedReview opts s) = (response, Some e)"
    by (simp add: selectedReview_def)
  then have "outcome (run NamespaceAll opts s) = Returned (Some e)
             \<and> stdout (run NamespaceAll opts s) = []"
    by (rule run_error)
  moreover have "server (run NamespaceAll opts s) = snd (selectedReview opts s)"
    by (rule run_server)
  ultimately show ?thesis
    unfolding selectedReview_def by simp
qed

text \<open>The fake reviewer whose namespace-scoped review times out: one call, no output.\<close>

theorem run_review_error_witness:
  "outcome (run '''' (getPods False failing) []) = Returned (Some (Error ''timeout''))
   \<and> stdout (run '''' (getPods False failing) []) = []
   \<and> server (run '''' (getPods False failing) [])
       = [LocalReview ''default'' \<lparr>Verb = ''get'', attrGroup = '''', attrResource = ''pods''\<rparr>]"
  using run_review_error [of "getPods False failing" "[]" None "Error ''timeout''" "''''"]
  by (simp add: getPods_def failing_def fakeReviewer_def)

subsection \<open>Report\<close>

lemma List_single: "List {|x|} = [x]"
  by (simp add: List_def sorted_list_of_fset.rep_eq)

lemma List_set: "List s = sorted_list_of_set (fset s)"
  by (simp add: List_def sorted_list_of_fset.rep_eq)

lemma List_empty: "fcard s = 0 \<longleftrightarrow> sorted_list_of_set (fset s) = []"
  by (auto simp add: sorted_list_of_set_eq_Nil_iff)

lemma sorted_list_of_list: "sorted_list_of_set (fset (fset_of_list xs)) = sort (remdups xs)"
  by (simp add: fset_of_list.rep_eq sorted_list_of_set_sort_remdups)

lemma Join_concat:
  "Join xs sep = (case xs of [] \<Rightarrow> [] | x # rest \<Rightarrow> x @ concat (map (\<lambda>v. sep @ v) rest))"
  by (induction xs sep rule: Join.induct) simp_all

lemma printUsers_entries:
  "printUsers response
     = ''Users:  ''
       @ (case sorted_list_of_set (fset (Users response)) of
            [] \<Rightarrow> ''none''
          | u # rest \<Rightarrow> u @ concat (map (\<lambda>v. ''\<newline>        '' @ v) rest))
       @ ''\<newline>\<newline>''"
proof (cases "sorted_list_of_set (fset (Users response))")
  case Nil
  then have "fcard (Users response) = 0" by (simp only: List_empty)
  with Nil show ?thesis by (simp add: printUsers_def)
next
  case (Cons u rest)
  then have "fcard (Users response) \<noteq> 0" by (simp only: List_empty) simp
  with Cons show ?thesis by (simp add: printUsers_def List_set Join_concat)
qed

lemma printGroups_entries:
  "printGroups response
     = ''Groups: ''
       @ (case sorted_list_of_set (fset (Groups response)) of
            [] \<Rightarrow> ''none''
          | g # rest \<Rightarrow> g @ concat (map (\<lambda>v. ''\<newline>        '' @ v) rest))
       @ ''\<newline>\<newline>''"
proof (cases "sorted_list_of_set (fset (Groups response))")
  case Nil
  then have "fcard (Groups response) = 0" by (simp only: List_empty)
  with Nil show ?thesis by (simp add: printGroups_def)
next
  case (Cons g rest)
  then have "fcard (Groups response) \<noteq> 0" by (simp only: List_empty) simp
  with Cons show ?thesis by (simp add: printGroups_def List_set Join_concat)
qed

lemma printNamespace_alt:
  "printNamespace NamespaceAll response
     = ''Namespace: '' @ (if Namespace response = NamespaceAll then ''<all>''
                          else Namespace response) @ ''\<newline>''"
  by (simp add: printNamespace_def)

lemma printUsers_alt:
  "printUsers response
     = ''Users:  '' @ (if Users response = {||} then ''none''
                       else Join (List (Users response)) ''\<newline>        '') @ ''\<newline>\<newline>''"
  by (simp add: printUsers_def)

lemma printGroups_alt:
  "printGroups response
     = ''Groups: '' @ (if Groups response = {||} then ''none''
                       else Join (List (Groups response)) ''\<newline>        '') @ ''\<newline>\<newline>''"
  by (simp add: printGroups_def)

lemma run_local_example:
  "run '''' (getPods False answering) []
     = \<lparr>outcome = Returned None,
        stdout = ''Namespace: default\<newline>Verb:      get\<newline>Resource:  pods\<newline>\<newline>Users:  alice\<newline>\<newline>Groups: none\<newline>\<newline>'',
        server = [LocalReview ''default'' \<lparr>Verb = ''get'', attrGroup = '''', attrResource = ''pods''\<rparr>]\<rparr>"
  by (simp add: run_def getPods_def answering_def fakeReviewer_def aliceOnly_def
      printNamespace_def resourceDisplay_def printUsers_def printGroups_def List_single)

lemma run_cluster_example:
  "run '''' (getPods True answering) []
     = \<lparr>outcome = Returned None,
        stdout = ''Namespace: <all>\<newline>Verb:      get\<newline>Resource:  pods\<newline>\<newline>Users:  none\<newline>\<newline>Groups: system:admins\<newline>\<newline>'',
        server = [ClusterReview \<lparr>Verb = ''get'', attrGroup = '''', attrResource = ''pods''\<rparr>]\<rparr>"
  by (simp add: run_def getPods_def answering_def fakeReviewer_def adminsOnly_def
      printNamespace_def resourceDisplay_def printUsers_def printGroups_def List_single)

text \<open>
  Claim C5. The Users and the Groups section show the literal \<open>none\<close> for an empty set
  and otherwise the members of the set in ascending order, each once: the first
  member, and every further member after a newline (and the eight blanks of the
  continuation indent). The order in which the members were supplied has no part: for
  a set built from any list \<open>supplied\<close>, the section shows that list sorted, duplicates
  removed. The two sections are the end of the report of every successful run.
\<close>

theorem users_groups_rendering:
  "printUsers response
     = ''Users:  ''
       @ (case sorted_list_of_set (fset (Users response)) of
            [] \<Rightarrow> ''none''
          | u # rest \<Rightarrow> u @ concat (map (\<lambda>v. ''\<newline>        '' @ v) rest))
       @ ''\<newline>\<newline>''
   \<and> printGroups response
     = ''Groups: ''
       @ (case sorted_list_of_set (fset (Groups response)) of
            [] \<Rightarrow> ''none''
          | g # rest \<Rightarrow> g @ concat (map (\<lambda>v. ''\<newline>        '' @ v) rest))
       @ ''\<newline>\<newline>''
   \<and> printUsers (response\<lparr>Users := fset_of_list supplied\<rparr>)
     = ''Users:  ''
       @ (case sort (remdups supplied) of
            [] \<Rightarrow> ''none''
          | u # rest \<Rightarrow> u @ concat (map (\<lambda>v. ''\<newline>        '' @ v) rest))
       @ ''\<newline>\<newline>''
   \<and> printGroups (response\<lparr>Groups := fset_of_list supplied\<rparr>)
     = ''Groups: ''
       @ (case sort (remdups supplied) of
            [] \<Rightarrow> ''none''
          | g # rest \<Rightarrow> g @ concat (map (\<lambda>v. ''\<newline>        '' @ v) rest))
       @ ''\<newline>\<newline>''
   \<and> (fst (if allNamespaces opts
            then ResourceAccessReviews_Create (client opts)
                   \<lparr>Verb = verb opts, attrGroup = Group (resource opts),
                    attrResource = Resource (resource opts)\<rparr> s
            else LocalResourceAccessReviews_Create (client opts) (bindingNamespace opts)
                   \<lparr>Verb = verb opts, attrGroup = Group (resource opts),
                    attrResource = Resource (resource opts)\<rparr> s) = (Some response, None)
        \<longrightarrow> (\<exists>header. stdout (run NamespaceAll opts s)
                         = header @ printUsers response @ printGroups response))"
proof -
  have u: "printUsers (response\<lparr>Users := fset_of_list supplied\<rparr>)
     = ''Users:  ''
       @ (case sort (remdups supplied) of
            [] \<Rightarrow> ''none''
          | u # rest \<Rightarrow> u @ concat (map (\<lambda>v. ''\<newline>        '' @ v) rest))
       @ ''\<newline>\<newline>''"
    using printUsers_entries [of "response\<lparr>Users := fset_of_list supplied\<rparr>"]
    by (simp add: sorted_list_of_list)
  have g: "printGroups (response\<lparr>Groups := fset_of_list supplied\<rparr>)
     = ''Groups: ''
       @ (case sort (remdups supplied) of
            [] \<Rightarrow> ''none''
          | g # rest \<Rightarrow> g @ concat (map (\<lambda>v. ''\<newline>        '' @ v) rest))
       @ ''\<newline>\<newline>''"
    using printGroups_entries [of "response\<lparr>Groups := fset_of_list supplied\<rparr>"]
    by (simp add: sorted_list_of_list)
  have r: "\<exists>header. stdout (run NamespaceAll opts s)
                      = header @ printUsers response @ printGroups response"
    if "fst (selectedReview opts s) = (Some response, None)"
  proof -
    from that have "stdout (run NamespaceAll opts s)
        = (printNamespace NamespaceAll response
           @ ''Verb:      '' @ verb opts @ ''\<newline>''
           @ ''Resource:  '' @ resourceDisplay (resource opts) @ ''\<newline>\<newline>'')
          @ printUsers response @ printGroups response"
      by (simp add: run_stdout)
    then show ?thesis by blast
  qed
  show ?thesis
    using printUsers_entries [of response] printGroups_entries [of response] u g r
    unfolding selectedReview_def by blast
qed

text \<open>
  The groups \<open>zeta\<close> and \<open>alpha\<close>, supplied in this order and in the other, and no users:
  \<open>alpha\<close> is shown first either way.
\<close>

theorem users_groups_rendering_witness:
  "printGroups (aliceOnly\<lparr>Groups := fset_of_list [''zeta'', ''alpha'']\<rparr>)
     = ''Groups: alpha\<newline>        zeta\<newline>\<newline>''
   \<and> printGroups (aliceOnly\<lparr>Groups := fset_of_list [''alpha'', ''zeta'']\<rparr>)
     = ''Groups: alpha\<newline>        zeta\<newline>\<newline>''
   \<and> printUsers (aliceOnly\<lparr>Users := fset_of_list []\<rparr>) = ''Users:  none\<newline>\<newline>''"
proof -
  have z: "sort (remdups [''zeta'', ''alpha'']) = [''alpha'', ''zeta'']"
    by code_simp
  have a: "sort (remdups [''alpha'', ''zeta'']) = [''alpha'', ''zeta'']"
    by code_simp
  have e: "sort (remdups ([] :: string list)) = []"
    by simp
  have 1: "printGroups (aliceOnly\<lparr>Groups := fset_of_list [''zeta'', ''alpha'']\<rparr>)
     = ''Groups: alpha\<newline>        zeta\<newline>\<newline>''"
    using users_groups_rendering [of aliceOnly "[''zeta'', ''alpha'']",
        THEN conjunct2, THEN conjunct2, THEN conjunct2, THEN conjunct1]
    unfolding z by simp
  have 2: "printGroups (aliceOnly\<lparr>Groups := fset_of_list [''alpha'', ''zeta'']\<rparr>)
     = ''Groups: alpha\<newline>        zeta\<newline>\<newline>''"
    using users_groups_rendering [of aliceOnly "[''alpha'', ''zeta'']",
        THEN conjunct2, THEN conjunct2, THEN conjunct2, THEN conjunct1]
    unfolding a by simp
  have 3: "printUsers (aliceOnly\<lparr>Users := fset_of_list []\<rparr>) = ''Users:  none\<newline>\<newline>''"
    using users_groups_rendering [of aliceOnly "[]",
        THEN conjunct2, THEN conjunct2, THEN conjunct1]
    unfolding e by simp
  from 1 2 3 show ?thesis by (intro conjI)
qed

text \<open>
  Claim C7. The first line of the report is the Namespace line. It shows the literal
  placeholder \<open><all>\<close> if the namespace of the review result is the all-namespaces
  marker, and the namespace as it is otherwise.
\<close>

theorem namespace_line:
  assumes "fst (if allNamespaces opts
                then ResourceAccessReviews_Create (client opts)
                       \<lparr>Verb = verb opts, attrGroup = Group (resource opts),
                        attrResource = Resource (resource opts)\<rparr> s
                else LocalResourceAccessReviews_Create (client opts) (bindingNamespace opts)
                       \<lparr>Verb = verb opts, attrGroup = Group (resource opts),
                        attrResource = Resource (resource opts)\<rparr> s) = (Some response, None)"
  shows "(Namespace response = NamespaceAll \<longrightarrow>
            take (length ''Namespace: <all>\<newline>'') (stdout (run NamespaceAll opts s))
              = ''Namespace: <all>\<newline>'')
         \<and> (Namespace response \<noteq> NamespaceAll \<longrightarrow>
            take (length (''Namespace: '' @ Namespace response @ ''\<newline>''))
                 (stdout (run NamespaceAll opts s))
              = ''Namespace: '' @ Namespace response @ ''\<newline>'')
         \<and> printNamespace NamespaceAll response
             = (if Namespace response = NamespaceAll then ''Namespace: <all>\<newline>''
                else ''Namespace: '' @ Namespace response @ ''\<newline>'')"
proof -
  from assms have "fst (selectedReview opts s) = (Some response, None)"
    by (simp add: selectedReview_def)
  then have "stdout (run NamespaceAll opts s)
     = printNamespace NamespaceAll response
       @ (''Verb:      '' @ verb opts @ ''\<newline>''
          @ ''Resource:  '' @ resourceDisplay (resource opts) @ ''\<newline>\<newline>''
          @ printUsers response @ printGroups response)"
    by (simp add: run_stdout)
  then have t: "take (length (printNamespace NamespaceAll response))
                  (stdout (run NamespaceAll opts s))
                = printNamespace NamespaceAll response"
    by (rule prefix_take)
  have m: "Namespace response = NamespaceAll \<Longrightarrow>
          printNamespace NamespaceAll response = ''Namespace: <all>\<newline>''"
    by (simp add: printNamespace_def)
  have v: "Namespace response \<noteq> NamespaceAll \<Longrightarrow>
          printNamespace NamespaceAll response
            = ''Namespace: '' @ Namespace response @ ''\<newline>''"
    by (simp add: printNamespace_def)
  have p: "printNamespace NamespaceAll response
             = (if Namespace response = NamespaceAll then ''Namespace: <all>\<newline>''
                else ''Namespace: '' @ Namespace response @ ''\<newline>'')"
    by (simp add: printNamespace_def)
  have 1: "Namespace response = NamespaceAll \<longrightarrow>
            take (length ''Namespace: <all>\<newline>'') (stdout (run NamespaceAll opts s))
              = ''Namespace: <all>\<newline>''"
    using t m by metis
  have 2: "Namespace response \<noteq> NamespaceAll \<longrightarrow>
            take (length (''Namespace: '' @ Namespace response @ ''\<newline>''))
                 (stdout (run NamespaceAll opts s))
              = ''Namespace: '' @ Namespace response @ ''\<newline>''"
    using t v by metis
  from 1 2 p show ?thesis by (intro conjI)
qed

text \<open>
  With the empty string as marker: the cluster-wide review answers with the marker,
  the namespace-scoped one with the namespace \<open>default\<close>.
\<close>

theorem namespace_line_witness:
  "take (length ''Namespace: <all>\<newline>'') (stdout (run '''' (getPods True answering) []))
     = ''Namespace: <all>\<newline>''
   \<and> take (length ''Namespace: default\<newline>'') (stdout (run '''' (getPods False answering) []))
     = ''Namespace: default\<newline>''"
proof -
  have c: "fst (ResourceAccessReviews_Create answering
                  \<lparr>Verb = ''get'', attrGroup = '''', attrResource = ''pods''\<rparr> [])
             = (Some adminsOnly, None)"
    by (simp add: answering_def fakeReviewer_def)
  have l: "fst (LocalResourceAccessReviews_Create answering ''default''
                  \<lparr>Verb = ''get'', attrGroup = '''', attrResource = ''pods''\<rparr> [])
             = (Some aliceOnly, None)"
    by (simp add: answering_def fakeReviewer_def)
  show ?thesis
    using namespace_line [of "getPods True answering" "[]" adminsOnly "''''"]
      namespace_line [of "getPods False answering" "[]" aliceOnly "''''"] c l
    by (simp add: getPods_def adminsOnly_def aliceOnly_def)
qed

text \<open>
  Claim C8, as amended. A successful invocation prints five sections in the order
  Namespace, Verb, Resource, Users, Groups; the Namespace and the Verb section end with
  their line, and each of the Resource, Users and Groups sections is followed by a
  blank line.
\<close>

theorem report_layout:
  assumes "outcome (run NamespaceAll opts s) = Returned None"
  shows "\<exists>response.
           fst (if allNamespaces opts
                then ResourceAccessReviews_Create (client opts)
                       \<lparr>Verb = verb opts, attrGroup = Group (resource opts),
                        attrResource = Resource (resource opts)\<rparr> s
                else LocalResourceAccessReviews_Create (client opts) (bindingNamespace opts)
                       \<lparr>Verb = verb opts, attrGroup = Group (resource opts),
                        attrResource = Resource (resource opts)\<rparr> s) = (Some response, None)
           \<and> stdout (run NamespaceAll opts s)
               = ''Namespace: '' @ (if Namespace response = NamespaceAll then ''<all>''
                                    else Namespace response) @ ''\<newline>''
                 @ ''Verb:      '' @ verb opts @ ''\<newline>''
                 @ ''Resource:  '' @ (if Group (resource opts) = [] then Resource (resource opts)
                                      else Resource (resource opts) @ ''.'' @ Group (resource opts))
                 @ ''\<newline>'' @ ''\<newline>''
                 @ ''Users:  '' @ (if Users response = {||} then ''none''
                                   else Join (List (Users response)) ''\<newline>        '')
                 @ ''\<newline>'' @ ''\<newline>''
                 @ ''Groups: '' @ (if Groups response = {||} then ''none''
                                   else Join (List (Groups response)) ''\<newline>        '')
                 @ ''\<newline>'' @ ''\<newline>''"
proof -
  from assms obtain response where r: "fst (selectedReview opts s) = (Some response, None)"
    by (auto simp add: run_outcome split: prod.splits option.splits)
  have d: "resourceDisplay (resource opts)
             = (if Group (resource opts) = [] then Resource (resource opts)
                else Resource (resource opts) @ ''.'' @ Group (resource opts))"
    by (simp add: resourceDisplay_def)
  from r have "stdout (run NamespaceAll opts s)
     = printNamespace NamespaceAll response
       @ ''Verb:      '' @ verb opts @ ''\<newline>''
       @ ''Resource:  '' @ resourceDisplay (resource opts) @ ''\<newline>\<newline>''
       @ printUsers response @ printGroups response"
    by (rule run_stdout)
  then have "stdout (run NamespaceAll opts s)
               = ''Namespace: '' @ (if Namespace response = NamespaceAll then ''<all>''
                                    else Namespace response) @ ''\<newline>''
                 @ ''Verb:      '' @ verb opts @ ''\<newline>''
                 @ ''Resource:  '' @ (if Group (resource opts) = [] then Resource (resource opts)
                                      else Resource (resource opts) @ ''.'' @ Group (resource opts))
                 @ ''\<newline>'' @ ''\<newline>''
                 @ ''Users:  '' @ (if Users response = {||} then ''none''
                                   else Join (List (Users response)) ''\<newline>        '')
                 @ ''\<newline>'' @ ''\<newline>''
                 @ ''Groups: '' @ (if Groups response = {||} then ''none''
                                   else Join (List (Groups response)) ''\<newline>        '')
                 @ ''\<newline>'' @ ''\<newline>''"
    unfolding printNamespace_alt printUsers_alt printGroups_alt d by simp
  with r show ?thesis unfolding selectedReview_def by blast
qed

text \<open>The cluster-wide review of \<open>get pods\<close>, answered with one group and no user.\<close>

theorem report_layout_witness:
  "outcome (run '''' (getPods True answering) []) = Returned None
   \<and> stdout (run '''' (getPods True answering) [])
       = ''Namespace: <all>\<newline>Verb:      get\<newline>Resource:  pods\<newline>\<newline>Users:  none\<newline>\<newline>Groups: system:admins\<newline>\<newline>''"
proof -
  have h: "outcome (run '''' (getPods True answering) []) = Returned None"
    by (simp add: run_cluster_example)
  from report_layout [OF h]
  show ?thesis
    using h
    by (auto simp add: getPods_def answering_def fakeReviewer_def adminsOnly_def List_single)
qed

text \<open>
  Claim C8 as stated fails: the namespace-scoped review of \<open>get pods\<close>, answered with the
  user \<open>alice\<close> and no group, succeeds, and its report has a blank line after the
  Resource section too, so it is not the report with a blank line after the last two
  sections only.
\<close>

theorem report_blank_lines_counterexample:
  "outcome (run '''' (getPods False answering) []) = Returned None
   \<and> stdout (run '''' (getPods False answering) [])
       = ''Namespace: default\<newline>Verb:      get\<newline>Resource:  pods\<newline>\<newline>Users:  alice\<newline>\<newline>Groups: none\<newline>\<newline>''
   \<and> stdout (run '''' (getPods False answering) [])
       \<noteq> reportAsClaimed ''default'' ''get'' ''pods'' ''alice'' ''none''"
  by (simp add: run_local_example reportAsClaimed_def)

end
